theory Spec2Isabelle
  imports
    Complex_Main
    "HOL-Library.Char_ord"
    "HOL-Library.List_Lexorder"
    "HOL-Library.Multiset"
begin

section \<open>Values\<close>

text \<open>
  A Python \<open>str\<close> is modelled by its UTF-8 bytes (\<^typ>\<open>string\<close>). The order of
  \<^typ>\<open>string\<close> (bytes compared left to right, a proper prefix first) is the order
  Python uses on \<open>str\<close>, because UTF-8 keeps the order of code points.

  A decoded JSON document, as \<open>response.json()\<close> returns it. \<open>JNull\<close> is Python's
  \<open>None\<close>; a \<open>JObj\<close> is a \<open>dict\<close> with its keys in insertion order; a float is
  given by its exact value.
\<close>

datatype json =
    JNull
  | JBool bool
  | JInt int
  | JFloat rat
  | JStr string
  | JArr "json list"
  | JObj "(string \<times> json) list"

text \<open>The scalar values of a query parameter (\<open>dict[str, Any]\<close> with scalar values).\<close>

datatype pyval = PStr string | PInt int

text \<open>A path segment of an endpoint (\<open>list[str | int]\<close>).\<close>

datatype segment = SegStr string | SegInt int

text \<open>
  A \<open>dict[str, Any]\<close> of query parameters: its items in insertion order. The keys of a
  dict are pairwise distinct.
\<close>

type_synonym params = "(string \<times> pyval) list"

text \<open>The exceptions that leave the modelled functions.\<close>

datatype exn =
    ApiError json
  | ApiErrorValidation string
  | CacheError string
  | KeyError string
  | IndexError
  | TypeError
  | AttributeError string
  | JSONDecodeError
  | RequestException string

section \<open>Built-in operations of Python used by the session\<close>

text \<open>\<open>str(n)\<close> for an integer: decimal digits, a leading minus sign when negative.\<close>

definition digit_char :: "nat \<Rightarrow> char" where
  "digit_char d = ''0123456789'' ! d"

function str_nat :: "nat \<Rightarrow> string" where
  "str_nat n = (if n < 10 then [digit_char n] else str_nat (n div 10) @ [digit_char (n mod 10)])"
  by pat_completeness auto
termination
  by (relation "measure id") auto

declare str_nat.simps [simp del]

definition str_int :: "int \<Rightarrow> string" where
  "str_int i = (if i < 0 then CHR ''-'' # str_nat (nat (- i)) else str_nat (nat i))"

fun str_pyval :: "pyval \<Rightarrow> string" where
  "str_pyval (PStr s) = s"
| "str_pyval (PInt i) = str_int i"

fun str_segment :: "segment \<Rightarrow> string" where
  "str_segment (SegStr s) = s"
| "str_segment (SegInt i) = str_int i"

text \<open>\<open>sep.join(parts)\<close>.\<close>

fun join :: "string \<Rightarrow> string list \<Rightarrow> string" where
  "join sep [] = []"
| "join sep [x] = x"
| "join sep (x # y # ys) = x @ sep @ join sep (y # ys)"

text \<open>
  \<open>urllib.parse.quote_plus(s)\<close> with the default \<open>safe=''\<close>: letters, digits and
  \<open>_.-~\<close> stay, a space becomes \<open>+\<close>, every other byte becomes \<open>%XX\<close> in
  upper-case hexadecimal.
\<close>

definition always_safe :: "char \<Rightarrow> bool" where
  "always_safe c \<longleftrightarrow>
     c \<in> set ''ABCDEFGHIJKLMNOPQRSTUVWXYZabcdefghijklmnopqrstuvwxyz0123456789_.-~''"

definition hex_char :: "nat \<Rightarrow> char" where
  "hex_char d = ''0123456789ABCDEF'' ! d"

definition quote_char :: "char \<Rightarrow> string" where
  "quote_char c =
     (if always_safe c then [c]
      else if c = CHR '' '' then ''+''
      else [CHR ''%'', hex_char (of_char c div 16), hex_char (of_char c mod 16)])"

definition quote_plus :: "string \<Rightarrow> string" where
  "quote_plus s = concat (map quote_char s)"

text \<open>
  \<open>urllib.parse.urlencode(query)\<close> for a mapping with scalar values: each item becomes
  \<open>quote_plus(k) + '=' + quote_plus(str(v))\<close>, the items are joined by \<open>&\<close> in the
  order of the mapping.
\<close>

definition urlencode :: "params \<Rightarrow> string" where
  "urlencode q = join ''&'' (map (\<lambda>(k, v). quote_plus k @ ''='' @ quote_plus (str_pyval v)) q)"

text \<open>
  \<open>d[k] = v\<close> on a dict: an existing key keeps its position and gets the new value, a
  new key is appended.
\<close>

fun dict_set :: "'k \<Rightarrow> 'v \<Rightarrow> ('k \<times> 'v) list \<Rightarrow> ('k \<times> 'v) list" where
  "dict_set k v [] = [(k, v)]"
| "dict_set k v (p # ps) = (if fst p = k then (k, v) # ps else p # dict_set k v ps)"

section \<open>The session\<close>

subsection \<open>The cache key\<close>

text \<open>
  \<open>Session._create_cached_params\<close>: the empty string for an empty dict, otherwise
  \<open>?\<close> and the URL-encoded items sorted by key (\<open>sorted\<close> is stable, as
  \<^const>\<open>sort_key\<close> is).
\<close>

definition create_cached_params :: "params \<Rightarrow> string" where
  "create_cached_params params =
     (if params \<noteq> [] then ''?'' @ urlencode (sort_key fst params) else '''')"

text \<open>
  \<open>self.api_url.format("/".join(str(e) for e in endpoint))\<close> with the template
  \<open>http://gateway.marvel.com:80/v1/public/{}\<close> that \<open>__init__\<close> sets.
\<close>

definition api_url_format :: "segment list \<Rightarrow> string" where
  "api_url_format endpoint =
     ''http://gateway.marvel.com:80/v1/public/'' @ join ''/'' (map str_segment endpoint)"

text \<open>The \<open>cache_key\<close> that \<open>_call\<close> builds from its arguments.\<close>

definition cache_key :: "segment list \<Rightarrow> params \<Rightarrow> string" where
  "cache_key endpoint params = api_url_format endpoint @ create_cached_params params"

subsection \<open>Operations on decoded JSON\<close>

text \<open>\<open>needle in hay\<close> on two \<open>str\<close>: \<open>needle\<close> occurs as a substring.\<close>

fun starts_with :: "string \<Rightarrow> string \<Rightarrow> bool" where
  "starts_with [] hay = True"
| "starts_with (c # cs) [] = False"
| "starts_with (c # cs) (h # hs) = (c = h \<and> starts_with cs hs)"

fun substring_of :: "string \<Rightarrow> string \<Rightarrow> bool" where
  "substring_of needle [] = (needle = [])"
| "substring_of needle (h # hs) = (starts_with needle (h # hs) \<or> substring_of needle hs)"

text \<open>
  \<open>k in data\<close> for a string \<open>k\<close>: key membership on a dict, element membership on a
  list, substring on a \<open>str\<close>, \<open>TypeError\<close> on everything else.
\<close>

fun py_contains :: "string \<Rightarrow> json \<Rightarrow> exn + bool" where
  "py_contains k (JObj kvs) = Inr (k \<in> set (map fst kvs))"
| "py_contains k (JArr xs) = Inr (JStr k \<in> set xs)"
| "py_contains k (JStr s) = Inr (substring_of k s)"
| "py_contains k _ = Inl TypeError"

text \<open>\<open>data.get(k, default)\<close>: only a dict has the method.\<close>

fun py_get :: "json \<Rightarrow> string \<Rightarrow> json \<Rightarrow> exn + json" where
  "py_get (JObj kvs) k d = Inr (case map_of kvs k of None \<Rightarrow> d | Some v \<Rightarrow> v)"
| "py_get _ k d = Inl (AttributeError ''get'')"

text \<open>
  \<open>data[k]\<close> for a string \<open>k\<close>: \<open>KeyError\<close> on a dict without the key,
  \<open>TypeError\<close> on everything that is not a dict.
\<close>

fun py_getitem :: "json \<Rightarrow> string \<Rightarrow> exn + json" where
  "py_getitem (JObj kvs) k = (case map_of kvs k of None \<Rightarrow> Inl (KeyError k) | Some v \<Rightarrow> Inr v)"
| "py_getitem _ k = Inl TypeError"

text \<open>
  The first code point of a non-empty UTF-8 string: its first byte and the continuation
  bytes (\<open>10xxxxxx\<close>, that is 128 to 191) that follow it.
\<close>

definition is_continuation :: "char \<Rightarrow> bool" where
  "is_continuation c \<longleftrightarrow> 128 \<le> (of_char c :: nat) \<and> (of_char c :: nat) < 192"

text \<open>
  \<open>x[0]\<close>: the first element of a list, \<open>IndexError\<close> on an empty list or string,
  the first character (code point) of a string, \<open>KeyError\<close> on a dict (its keys are
  strings), \<open>TypeError\<close> otherwise.
\<close>

fun py_index0 :: "json \<Rightarrow> exn + json" where
  "py_index0 (JArr []) = Inl IndexError"
| "py_index0 (JArr (x # xs)) = Inr x"
| "py_index0 (JStr []) = Inl IndexError"
| "py_index0 (JStr (c # cs)) = Inr (JStr (c # takeWhile is_continuation cs))"
| "py_index0 (JObj kvs) = Inl (KeyError ''0'')"
| "py_index0 _ = Inl TypeError"

text \<open>\<open>x != 200\<close>: only a number of value 200 is equal to 200.\<close>

fun py_ne_200 :: "json \<Rightarrow> bool" where
  "py_ne_200 (JInt n) = (n \<noteq> 200)"
| "py_ne_200 (JFloat r) = (r \<noteq> 200)"
| "py_ne_200 _ = True"

subsection \<open>Session, collaborators and the outside world\<close>

text \<open>
  The cache collaborator is any object: \<open>truthy\<close> is its truth value (what
  \<open>if self.cache:\<close> tests), \<open>get_op\<close> and \<open>store_op\<close> are its \<open>get\<close> and
  \<open>store\<close> methods, \<open>None\<close> when the object has no such attribute. The methods
  work on the collaborator's own state of type \<open>'c\<close>; \<open>get\<close> returns \<open>JNull\<close>
  (Python's \<open>None\<close>) for an absent key and leaves the state as it is. The only
  exception a method access raises here is the \<open>AttributeError\<close> of a missing
  attribute.
\<close>

record 'c cache_obj =
  truthy :: bool
  get_op :: "('c \<Rightarrow> string \<Rightarrow> json) option"
  store_op :: "('c \<Rightarrow> string \<Rightarrow> json \<Rightarrow> 'c) option"

text \<open>The fields \<open>Session.__init__\<close> sets (\<open>api_url\<close> is the constant template).\<close>

record 'c session =
  headers :: "(string \<times> string) list"
  public_key :: string
  private_key :: string
  cache :: "'c cache_obj option"

text \<open>
  An HTTP response: \<open>body\<close> is what \<open>response.json()\<close> decodes, \<open>None\<close> when the
  body is not JSON.
\<close>

record http_response =
  status_code :: int
  body :: "json option"

text \<open>The calls the session makes on its collaborators, in order.\<close>

datatype event =
    CacheGet string
  | HttpGet string params "(string \<times> string) list"
  | CacheStore string json

text \<open>
  Everything outside the session: the MD5 of \<open>hashlib\<close> (bytes to hexadecimal digest),
  the clock (\<open>clock w n\<close> is what the \<open>n\<close>-th evaluation of
  \<open>datetime.now().strftime("%Y-%m-%d%H:%M:%S")\<close> returns), the remote server behind
  \<open>requests.get\<close>, the state of the cache collaborator, and the trace of calls made so
  far.
\<close>

record 'c world =
  md5_hexdigest :: "string \<Rightarrow> string"
  clock :: "nat \<Rightarrow> string"
  ticks :: nat
  remote :: "string \<Rightarrow> params \<Rightarrow> (string \<times> string) list \<Rightarrow> exn + http_response"
  cache_state :: 'c
  trace :: "event list"

subsection \<open>Authentication\<close>

text \<open>
  A \<open>hashlib\<close> hash object is the bytes fed to it so far: \<open>update\<close> appends,
  \<open>hexdigest\<close> digests all of them.
\<close>

definition md5_new :: string where
  "md5_new = []"

definition md5_update :: "string \<Rightarrow> string \<Rightarrow> string" where
  "md5_update h bs = h @ bs"

text \<open>\<open>Session._create_auth_hash\<close>.\<close>

definition create_auth_hash :: "'c session \<Rightarrow> 'c world \<Rightarrow> string \<Rightarrow> string" where
  "create_auth_hash s w now_string =
     (let auth_hash = md5_new;
          auth_hash = md5_update auth_hash now_string;
          auth_hash = md5_update auth_hash (private_key s);
          auth_hash = md5_update auth_hash (public_key s)
      in md5_hexdigest w auth_hash)"

text \<open>
  \<open>Session._update_params\<close>: reads the clock once and sets three items of the dict in
  place; the result is the dict after the call.
\<close>

definition update_params :: "'c session \<Rightarrow> params \<Rightarrow> 'c world \<Rightarrow> params \<times> 'c world" where
  "update_params s params w =
     (let now_string = clock w (ticks w);
          w = w\<lparr>ticks := Suc (ticks w)\<rparr>;
          params = dict_set ''hash'' (PStr (create_auth_hash s w now_string)) params;
          params = dict_set ''apikey'' (PStr (public_key s)) params;
          params = dict_set ''ts'' (PStr now_string) params
      in (params, w))"

subsection \<open>Cache access\<close>

text \<open>
  \<open>Session._get_results_from_cache\<close>: no lookup without a cache or with a cache whose
  truth value is false; \<open>CacheError\<close> when the attribute \<open>get\<close> is missing.
\<close>

definition get_results_from_cache ::
  "'c session \<Rightarrow> string \<Rightarrow> 'c world \<Rightarrow> (exn + json) \<times> 'c world" where
  "get_results_from_cache s key w =
     (case cache s of
        None \<Rightarrow> (Inr JNull, w)
      | Some c \<Rightarrow>
          if truthy c then
            (case get_op c of
               None \<Rightarrow> (Inl (CacheError ''get''), w)
             | Some g \<Rightarrow> (Inr (g (cache_state w) key), w\<lparr>trace := trace w @ [CacheGet key]\<rparr>))
          else (Inr JNull, w))"

text \<open>\<open>Session._save_results_to_cache\<close>.\<close>

definition save_results_to_cache ::
  "'c session \<Rightarrow> string \<Rightarrow> json \<Rightarrow> 'c world \<Rightarrow> (exn + unit) \<times> 'c world" where
  "save_results_to_cache s key data w =
     (case cache s of
        None \<Rightarrow> (Inr (), w)
      | Some c \<Rightarrow>
          if truthy c then
            (case store_op c of
               None \<Rightarrow> (Inl (CacheError ''store''), w)
             | Some st \<Rightarrow>
                 (Inr (), w\<lparr>cache_state := st (cache_state w) key data,
                            trace := trace w @ [CacheStore key data]\<rparr>))
          else (Inr (), w))"

subsection \<open>The request pipeline\<close>

text \<open>\<open>requests.get(url, params=params, headers=headers)\<close>.\<close>

definition requests_get ::
  "string \<Rightarrow> params \<Rightarrow> (string \<times> string) list \<Rightarrow> 'c world \<Rightarrow> (exn + http_response) \<times> 'c world" where
  "requests_get url params hdrs w =
     (remote w url params hdrs, w\<lparr>trace := trace w @ [HttpGet url params hdrs]\<rparr>)"

text \<open>\<open>response.json()\<close>.\<close>

definition response_json :: "http_response \<Rightarrow> exn + json" where
  "response_json response = (case body response of None \<Rightarrow> Inl JSONDecodeError | Some d \<Rightarrow> Inr d)"

text \<open>
  \<open>Session._call\<close> from \<open>data = response.json()\<close> to its end: classification of
  the body, the cache write under \<open>cache_key\<close>, and the \<open>results\<close> field.
\<close>

definition handle_response ::
  "'c session \<Rightarrow> string \<Rightarrow> http_response \<Rightarrow> 'c world \<Rightarrow> (exn + json) \<times> 'c world" where
  "handle_response s key response w3 =
     (case response_json response of
        Inl e \<Rightarrow> (Inl e, w3)
      | Inr data \<Rightarrow>
     (case py_contains ''message'' data of
        Inl e \<Rightarrow> (Inl e, w3)
      | Inr True \<Rightarrow>
          (case py_getitem data ''message'' of
             Inl e \<Rightarrow> (Inl e, w3)
           | Inr m \<Rightarrow> (Inl (ApiError m), w3))
      | Inr False \<Rightarrow>
     (case py_get data ''code'' (JInt 200) of
        Inl e \<Rightarrow> (Inl e, w3)
      | Inr code \<Rightarrow>
          if py_ne_200 code then
            (case py_get data ''status'' JNull of
               Inl e \<Rightarrow> (Inl e, w3)
             | Inr status \<Rightarrow> (Inl (ApiError status), w3))
          else
     (case py_contains ''data'' data of
        Inl e \<Rightarrow> (Inl e, w3)
      | Inr has_data \<Rightarrow>
     (case (if has_data then py_getitem data ''data'' else Inr data) of
        Inl e \<Rightarrow> (Inl e, w3)
      | Inr data \<Rightarrow>
     (case (if status_code response = 200 then save_results_to_cache s key data w3
            else (Inr (), w3)) of
        (Inl e, w4) \<Rightarrow> (Inl e, w4)
      | (Inr u, w4) \<Rightarrow> (py_getitem data ''results'', w4)))))))"

text \<open>
  \<open>Session._call\<close>. The result is what the call returns or raises, the \<open>params\<close>
  dict as the call leaves it (the caller's own dict when one was passed), and the world
  afterwards.
\<close>

definition call ::
  "'c session \<Rightarrow> segment list \<Rightarrow> params option \<Rightarrow> 'c world \<Rightarrow> (exn + json) \<times> params \<times> 'c world" where
  "call s endpoint params_arg w0 =
     (let params = (case params_arg of None \<Rightarrow> [] | Some p \<Rightarrow> p);
          url = api_url_format endpoint;
          cache_params = create_cached_params params;
          key = url @ cache_params
      in case get_results_from_cache s key w0 of
           (Inl e, w1) \<Rightarrow> (Inl e, params, w1)
         | (Inr cached_response, w1) \<Rightarrow>
             if cached_response \<noteq> JNull then (py_getitem cached_response ''results'', params, w1)
             else
               (case update_params s params w1 of (params, w2) \<Rightarrow>
                (case requests_get url params (headers s) w2 of
                   (Inl e, w3) \<Rightarrow> (Inl e, params, w3)
                 | (Inr response, w3) \<Rightarrow>
                     (case handle_response s key response w3 of
                        (r, w4) \<Rightarrow> (r, params, w4)))))"

subsection \<open>Singular fetches\<close>

text \<open>
  The six methods that fetch one record. The schemas are outside the modelled file, so
  each method takes the validator of its record type: \<open>Inl err\<close> is a
  \<open>ValidationError\<close>, which alone is caught and raised again as \<open>ApiError\<close>.
\<close>

text \<open>\<open>Session.comic\<close>, with \<open>TypeAdapter(Comic).validate_python\<close> as \<open>validate_python\<close>.\<close>

definition comic ::
  "(json \<Rightarrow> string + 'r) \<Rightarrow> 'c session \<Rightarrow> int \<Rightarrow> 'c world \<Rightarrow> (exn + 'r) \<times> 'c world" where
  "comic validate_python s i w =
     (case call s [SegStr ''comics'', SegInt i] None w of
        (Inl e, p, w1) \<Rightarrow> (Inl e, w1)
      | (Inr results, p, w1) \<Rightarrow>
          (case py_index0 results of
             Inl e \<Rightarrow> (Inl e, w1)
           | Inr result \<Rightarrow>
               (case validate_python result of
                  Inl err \<Rightarrow> (Inl (ApiErrorValidation err), w1)
                | Inr record \<Rightarrow> (Inr record, w1))))"

text \<open>\<open>Session.series\<close>, with \<open>TypeAdapter(Series).validate_python\<close> as \<open>validate_python\<close>.\<close>

definition series ::
  "(json \<Rightarrow> string + 'r) \<Rightarrow> 'c session \<Rightarrow> int \<Rightarrow> 'c world \<Rightarrow> (exn + 'r) \<times> 'c world" where
  "series validate_python s i w =
     (case call s [SegStr ''series'', SegInt i] None w of
        (Inl e, p, w1) \<Rightarrow> (Inl e, w1)
      | (Inr results, p, w1) \<Rightarrow>
          (case py_index0 results of
             Inl e \<Rightarrow> (Inl e, w1)
           | Inr result \<Rightarrow>
               (case validate_python result of
                  Inl err \<Rightarrow> (Inl (ApiErrorValidation err), w1)
                | Inr record \<Rightarrow> (Inr record, w1))))"

text \<open>\<open>Session.creator\<close>, with \<open>TypeAdapter(Creator).validate_python\<close> as \<open>validate_python\<close>.\<close>

definition creator ::
  "(json \<Rightarrow> string + 'r) \<Rightarrow> 'c session \<Rightarrow> int \<Rightarrow> 'c world \<Rightarrow> (exn + 'r) \<times> 'c world" where
  "creator validate_python s i w =
     (case call s [SegStr ''creators'', SegInt i] None w of
        (Inl e, p, w1) \<Rightarrow> (Inl e, w1)
      | (Inr results, p, w1) \<Rightarrow>
          (case py_index0 results of
             Inl e \<Rightarrow> (Inl e, w1)
           | Inr result \<Rightarrow>
               (case validate_python result of
                  Inl err \<Rightarrow> (Inl (ApiErrorValidation err), w1)
                | Inr record \<Rightarrow> (Inr record, w1))))"

text \<open>\<open>Session.character\<close>, with \<open>TypeAdapter(Character).validate_python\<close> as \<open>validate_python\<close>.\<close>

definition character ::
  "(json \<Rightarrow> string + 'r) \<Rightarrow> 'c session \<Rightarrow> int \<Rightarrow> 'c world \<Rightarrow> (exn + 'r) \<times> 'c world" where
  "character validate_python s i w =
     (case call s [SegStr ''characters'', SegInt i] None w of
        (Inl e, p, w1) \<Rightarrow> (Inl e, w1)
      | (Inr results, p, w1) \<Rightarrow>
          (case py_index0 results of
             Inl e \<Rightarrow> (Inl e, w1)
           | Inr result \<Rightarrow>
               (case validate_python result of
                  Inl err \<Rightarrow> (Inl (ApiErrorValidation err), w1)
                | Inr record \<Rightarrow> (Inr record, w1))))"

text \<open>\<open>Session.story\<close>, with \<open>TypeAdapter(Story).validate_python\<close> as \<open>validate_python\<close>.\<close>

definition story ::
  "(json \<Rightarrow> string + 'r) \<Rightarrow> 'c session \<Rightarrow> int \<Rightarrow> 'c world \<Rightarrow> (exn + 'r) \<times> 'c world" where
  "story validate_python s i w =
     (case call s [SegStr ''stories'', SegInt i] None w of
        (Inl e, p, w1) \<Rightarrow> (Inl e, w1)
      | (Inr results, p, w1) \<Rightarrow>
          (case py_index0 results of
             Inl e \<Rightarrow> (Inl e, w1)
           | Inr result \<Rightarrow>
               (case validate_python result of
                  Inl err \<Rightarrow> (Inl (ApiErrorValidation err), w1)
                | Inr record \<Rightarrow> (Inr record, w1))))"

text \<open>\<open>Session.event\<close>, with \<open>TypeAdapter(Event).validate_python\<close> as \<open>validate_python\<close>.\<close>

definition event ::
  "(json \<Rightarrow> string + 'r) \<Rightarrow> 'c session \<Rightarrow> int \<Rightarrow> 'c world \<Rightarrow> (exn + 'r) \<times> 'c world" where
  "event validate_python s i w =
     (case call s [SegStr ''events'', SegInt i] None w of
        (Inl e, p, w1) \<Rightarrow> (Inl e, w1)
      | (Inr results, p, w1) \<Rightarrow>
          (case py_index0 results of
             Inl e \<Rightarrow> (Inl e, w1)
           | Inr result \<Rightarrow>
               (case validate_python result of
                  Inl err \<Rightarrow> (Inl (ApiErrorValidation err), w1)
                | Inr record \<Rightarrow> (Inr record, w1))))"

subsection \<open>Reading the trace\<close>

text \<open>The calls made between two worlds, and the cache keys they name.\<close>

definition new_events :: "'c world \<Rightarrow> 'c world \<Rightarrow> event list" where
  "new_events w w' = drop (length (trace w)) (trace w')"

fun event_keys :: "event \<Rightarrow> string list" where
  "event_keys (CacheGet k) = [k]"
| "event_keys (CacheStore k d) = [k]"
| "event_keys (HttpGet u p h) = []"

fun is_http :: "event \<Rightarrow> bool" where
  "is_http (HttpGet u p h) = True"
| "is_http _ = False"

fun is_store :: "event \<Rightarrow> bool" where
  "is_store (CacheStore k d) = True"
| "is_store _ = False"

text \<open>The cache keys a call of \<open>_call\<close> hands to the cache collaborator.\<close>

definition keys_used :: "'c session \<Rightarrow> segment list \<Rightarrow> params \<Rightarrow> 'c world \<Rightarrow> string list" where
  "keys_used s endpoint params w =
     concat (map event_keys (new_events w (snd (snd (call s endpoint (Some params) w)))))"

subsection \<open>Concrete collaborators\<close>

text \<open>
  Modelled from the spec: the cache collaborator \<open>esak.sqlite_cache.SqliteCache\<close>, which
  is outside the modelled file, as a key-value store with \<open>get(key) -> value | absent\<close>
  and \<open>store(key, value)\<close>.
\<close>

definition memory_cache :: "((string \<times> json) list) cache_obj" where
  "memory_cache =
     \<lparr>truthy = True,
      get_op = Some (\<lambda>st k. case map_of st k of None \<Rightarrow> JNull | Some v \<Rightarrow> v),
      store_op = Some (\<lambda>st k v. dict_set k v st)\<rparr>"

text \<open>
  Objects that are not caches: an empty list (false, neither \<open>get\<close> nor \<open>store\<close>), a
  non-empty list (true, neither method) and a non-empty dict (true, \<open>get\<close> but no
  \<open>store\<close>; its state is its items).
\<close>

text \<open>
  A key-value store like \<open>memory_cache\<close> whose truth value is false (an object that
  defines \<open>__bool__\<close> or \<open>__len__\<close> so).
\<close>

definition falsy_store_cache :: "((string \<times> json) list) cache_obj" where
  "falsy_store_cache =
     \<lparr>truthy = False,
      get_op = Some (\<lambda>st k. case map_of st k of None \<Rightarrow> JNull | Some v \<Rightarrow> v),
      store_op = Some (\<lambda>st k v. dict_set k v st)\<rparr>"

definition empty_list_cache :: "((string \<times> json) list) cache_obj" where
  "empty_list_cache = \<lparr>truthy = False, get_op = None, store_op = None\<rparr>"

definition list_cache :: "((string \<times> json) list) cache_obj" where
  "list_cache = \<lparr>truthy = True, get_op = None, store_op = None\<rparr>"

definition dict_cache :: "((string \<times> json) list) cache_obj" where
  "dict_cache =
     \<lparr>truthy = True,
      get_op = Some (\<lambda>st k. case map_of st k of None \<Rightarrow> JNull | Some v \<Rightarrow> v),
      store_op = None\<rparr>"

text \<open>A session with fixed keys, and a world whose server answers every request alike.\<close>

definition demo_session :: "'c cache_obj option \<Rightarrow> 'c session" where
  "demo_session c =
     \<lparr>headers = [(''User-Agent'', ''esak/2.0.0 (Linux; 6.1.0)'')],
      public_key = ''pub'',
      private_key = ''priv'',
      cache = c\<rparr>"

definition demo_world :: "int \<Rightarrow> json \<Rightarrow> 'c \<Rightarrow> 'c world" where
  "demo_world sc b st =
     \<lparr>md5_hexdigest = (\<lambda>bs. ''md5('' @ bs @ '')''),
      clock = (\<lambda>n. if n = 0 then ''2024-05-0112:00:00'' else ''2024-05-0112:00:01''),
      ticks = 0,
      remote = (\<lambda>url p h. Inr \<lparr>status_code = sc, body = Some b\<rparr>),
      cache_state = st,
      trace = []\<rparr>"

text \<open>A validator that accepts the objects with an integer \<open>id\<close> and returns it.\<close>

definition validate_id :: "json \<Rightarrow> string + int" where
  "validate_id j =
     (case py_getitem j ''id'' of
        Inr (JInt n) \<Rightarrow> Inr n
      | _ \<Rightarrow> Inl ''id: field required'')"

section \<open>Properties\<close>

subsection \<open>Evaluation and helper lemmas\<close>

lemmas eval_key = cache_key_def api_url_format_def create_cached_params_def urlencode_def
  quote_plus_def quote_char_def always_safe_def str_int_def str_nat.simps digit_char_def
  hex_char_def

lemmas eval_call = call_def handle_response_def get_results_from_cache_def
  save_results_to_cache_def update_params_def create_auth_hash_def md5_new_def md5_update_def
  requests_get_def response_json_def demo_session_def demo_world_def memory_cache_def
  empty_list_cache_def list_cache_def dict_cache_def falsy_store_cache_def new_events_def

lemma map_of_dict_set: "map_of (dict_set k v ps) = (map_of ps)(k \<mapsto> v)"
  by (induction ps) (auto simp: fun_eq_iff)

lemma filter_key_distinct:
  "distinct (map fst zs) \<Longrightarrow> k \<in> set zs \<Longrightarrow> filter (\<lambda>x. fst k = fst x) zs = [k]"
proof (induction zs)
  case Nil
  then show ?case by simp
next
  case (Cons z zs)
  show ?case
  proof (cases "k = z")
    case True
    have "fst x \<noteq> fst z" if "x \<in> set zs" for x
      using Cons.prems(1) that by (metis distinct.simps(2) image_eqI list.simps(9) set_map)
    then have "filter (\<lambda>x. fst z = fst x) zs = []"
      by (simp add: filter_empty_conv) metis
    with True show ?thesis by simp
  next
    case False
    with Cons.prems have kin: "k \<in> set zs" by simp
    then have "fst k \<in> fst ` set zs" by (rule imageI)
    moreover from Cons.prems(1) have "fst z \<notin> fst ` set zs" by simp
    ultimately have "fst k \<noteq> fst z" by metis
    with Cons kin show ?thesis by simp
  qed
qed

lemma distinct_keys_sort_key:
  "distinct (map fst (sort_key fst zs)) = distinct (map fst (zs :: ('a::linorder \<times> 'b) list))"
proof -
  have "mset (map fst (sort_key fst zs)) = mset (map fst zs)" by simp
  then show ?thesis by (rule mset_eq_imp_distinct_iff)
qed

text \<open>Two dicts with the same items are sorted into the same list of items.\<close>

lemma sort_key_fst_unique:
  fixes xs ys :: "('a::linorder \<times> 'b) list"
  assumes dx: "distinct (map fst xs)" and dy: "distinct (map fst ys)" and eq: "set xs = set ys"
  shows "sort_key fst xs = sort_key fst ys"
proof (rule properties_for_sort_key)
  from dx dy have "distinct xs" "distinct ys" by (simp_all add: distinct_map)
  with eq have "mset xs = mset ys" by (simp add: set_eq_iff_mset_eq_distinct)
  then show "mset (sort_key fst ys) = mset xs" by simp
next
  show "sorted (map fst (sort_key fst ys))" by (rule sorted_sort_key)
next
  fix k assume k: "k \<in> set (sort_key fst ys)"
  have "filter (\<lambda>x. fst k = fst x) (sort_key fst ys) = [k]"
    using k dy by (intro filter_key_distinct) (simp_all add: distinct_keys_sort_key)
  moreover have "filter (\<lambda>x. fst k = fst x) xs = [k]"
    using k dx eq by (intro filter_key_distinct) simp_all
  ultimately show "filter (\<lambda>x. fst k = fst x) (sort_key fst ys) = filter (\<lambda>x. fst k = fst x) xs"
    by simp
qed

text \<open>What \<open>_call\<close> does when the lookup returns a value that is not \<open>None\<close>.\<close>

lemma call_hit:
  assumes "cache s = Some c" and "truthy c" and "get_op c = Some g"
    and "g (cache_state w) (cache_key endpoint params) = V"
    and "V \<noteq> JNull"
  shows "call s endpoint (Some params) w =
    (py_getitem V ''results'', params,
     w\<lparr>trace := trace w @ [CacheGet (cache_key endpoint params)]\<rparr>)"
  using assms by (simp add: call_def get_results_from_cache_def cache_key_def Let_def)

text \<open>The lookup changes nothing but the trace.\<close>

lemma lookup_frame:
  assumes "get_results_from_cache s key w = (r, w1)"
  shows "clock w1 = clock w" and "ticks w1 = ticks w" and "remote w1 = remote w"
    and "md5_hexdigest w1 = md5_hexdigest w" and "cache_state w1 = cache_state w"
    and "trace w1 = trace w \<or> trace w1 = trace w @ [CacheGet key]"
  using assms
  by (auto simp: get_results_from_cache_def split: option.splits if_splits)

lemma update_params_frame:
  assumes "clock w1 = clock w" and "ticks w1 = ticks w" and "md5_hexdigest w1 = md5_hexdigest w"
  shows "fst (update_params s P w1) = fst (update_params s P w)"
  using assms by (simp add: update_params_def create_auth_hash_def Let_def)

text \<open>
  What \<open>_call\<close> does after a lookup that returned \<open>None\<close> and a request that the
  server answered: the rest is \<open>handle_response\<close>, in a world \<open>w3\<close> whose cache is
  untouched and whose new events are the lookup, if any, and the request.
\<close>

lemma call_on_miss:
  assumes miss: "fst (get_results_from_cache s (cache_key E P) w) = Inr JNull"
    and resp: "remote w (api_url_format E) (fst (update_params s P w)) (headers s) = Inr response"
  shows "\<exists>w3 pre. cache_state w3 = cache_state w \<and> trace w3 = trace w @ pre
           \<and> filter is_store pre = [] \<and> filter is_http pre \<noteq> []
           \<and> call s E (Some P) w =
               (case handle_response s (cache_key E P) response w3 of
                  (r, w4) \<Rightarrow> (r, fst (update_params s P w), w4))"
proof -
  obtain w1 where g: "get_results_from_cache s (cache_key E P) w = (Inr JNull, w1)"
    using miss by (cases "get_results_from_cache s (cache_key E P) w") auto
  note fr = lookup_frame [OF g]
  let ?P2 = "fst (update_params s P w)"
  let ?ev = "HttpGet (api_url_format E) ?P2 (headers s)"
  let ?w3 = "w1\<lparr>ticks := Suc (ticks w1), trace := trace w1 @ [?ev]\<rparr>"
  have p2: "fst (update_params s P w1) = ?P2"
    using fr by (intro update_params_frame) simp_all
  have u: "update_params s P w1 = (?P2, w1\<lparr>ticks := Suc (ticks w1)\<rparr>)"
    using p2 by (simp add: update_params_def Let_def)
  have c: "call s E (Some P) w =
             (case handle_response s (cache_key E P) response ?w3 of
                (r, w4) \<Rightarrow> (r, ?P2, w4))"
    using g u resp fr(3) by (simp add: call_def cache_key_def Let_def requests_get_def)
  have cs: "cache_state ?w3 = cache_state w" using fr(5) by simp
  from fr(6) have "\<exists>pre. trace ?w3 = trace w @ pre \<and> filter is_store pre = []
      \<and> filter is_http pre \<noteq> []"
  proof
    assume "trace w1 = trace w"
    then have "trace ?w3 = trace w @ [?ev]" by simp
    then show ?thesis by force
  next
    assume "trace w1 = trace w @ [CacheGet (cache_key E P)]"
    then have "trace ?w3 = trace w @ [CacheGet (cache_key E P), ?ev]" by simp
    then show ?thesis by force
  qed
  with cs c show ?thesis by blast
qed

text \<open>Key membership on a decoded object.\<close>

lemma py_contains_obj: "py_contains k (JObj kvs) = Inr (map_of kvs k \<noteq> None)"
  by (simp add: map_of_eq_None_iff)

text \<open>The three ways a JSON object is classified.\<close>

lemma handle_message:
  assumes "body response = Some (JObj kvs)" and "map_of kvs ''message'' = Some m"
  shows "handle_response s key response w = (Inl (ApiError m), w)"
  using assms
  by (simp add: handle_response_def response_json_def py_contains_obj del: py_contains.simps)

lemma handle_code:
  assumes "body response = Some (JObj kvs)" and "map_of kvs ''message'' = None"
    and "map_of kvs ''code'' = Some c" and "py_ne_200 c"
  shows "handle_response s key response w =
           (Inl (ApiError (case map_of kvs ''status'' of None \<Rightarrow> JNull | Some v \<Rightarrow> v)), w)"
  using assms
  by (simp add: handle_response_def response_json_def py_contains_obj del: py_contains.simps)

lemma handle_pass:
  assumes "body response = Some (JObj kvs)" and "map_of kvs ''message'' = None"
    and "case map_of kvs ''code'' of None \<Rightarrow> True | Some c \<Rightarrow> \<not> py_ne_200 c"
  shows "handle_response s key response w =
           (let data = (case map_of kvs ''data'' of None \<Rightarrow> JObj kvs | Some d \<Rightarrow> d) in
            case (if status_code response = 200 then save_results_to_cache s key data w
                  else (Inr (), w)) of
              (Inl e, w4) \<Rightarrow> (Inl e, w4)
            | (Inr u, w4) \<Rightarrow> (py_getitem data ''results'', w4))"
  using assms
  by (cases "map_of kvs ''code''"; cases "map_of kvs ''data''")
     (simp_all add: handle_response_def response_json_def py_contains_obj Let_def
        del: py_contains.simps)

subsection \<open>The cache\<close>

text \<open>
  C1, as the code has it. \<open>_call\<close> consults the cache collaborator only when its truth
  value is true. When such a collaborator returns for the key built from the endpoint and
  the params an entry \<open>V\<close> that has a \<open>results\<close> field, \<open>_call\<close> returns that field;
  the only call it makes on a collaborator is the lookup, so there is no HTTP request and
  no cache store, and the world is otherwise unchanged.
\<close>

theorem call_cache_hit_short_circuit:
  assumes "cache s = Some c" and "truthy c" and "get_op c = Some g"
    and "g (cache_state w) (cache_key endpoint params) = JObj kvs"
    and "map_of kvs ''results'' = Some r"
  shows "call s endpoint (Some params) w =
           (Inr r, params, w\<lparr>trace := trace w @ [CacheGet (cache_key endpoint params)]\<rparr>)
       \<and> new_events w (snd (snd (call s endpoint (Some params) w)))
           = [CacheGet (cache_key endpoint params)]"
proof -
  have "JObj kvs \<noteq> JNull" by simp
  from call_hit [OF assms(1-4) this] assms(5) show ?thesis
    by (simp add: new_events_def)
qed

theorem call_cache_hit_short_circuit_witness:
  "call (demo_session (Some memory_cache)) [SegStr ''comics'', SegInt 1] (Some [])
     (demo_world 200 JNull
        [(''http://gateway.marvel.com:80/v1/public/comics/1'',
          JObj [(''results'', JArr [JObj [(''id'', JInt 1)]])])])
   = (Inr (JArr [JObj [(''id'', JInt 1)]]), [],
      (demo_world 200 JNull
        [(''http://gateway.marvel.com:80/v1/public/comics/1'',
          JObj [(''results'', JArr [JObj [(''id'', JInt 1)]])])])
      \<lparr>trace := [CacheGet ''http://gateway.marvel.com:80/v1/public/comics/1'']\<rparr>)"
proof -
  let ?K = "''http://gateway.marvel.com:80/v1/public/comics/1''"
  let ?V = "JObj [(''results'', JArr [JObj [(''id'', JInt 1)]])]"
  let ?w = "demo_world 200 JNull [(?K, ?V)]"
  have k: "cache_key [SegStr ''comics'', SegInt 1] [] = ?K"
    by (simp add: eval_key)
  have h1: "cache (demo_session (Some memory_cache)) = Some memory_cache"
    by (simp add: demo_session_def)
  have h2: "truthy memory_cache"
    by (simp add: memory_cache_def)
  have h3: "get_op memory_cache = Some (\<lambda>st k. case map_of st k of None \<Rightarrow> JNull | Some v \<Rightarrow> v)"
    by (simp add: memory_cache_def)
  have h4: "(case map_of (cache_state ?w) (cache_key [SegStr ''comics'', SegInt 1] []) of
               None \<Rightarrow> JNull | Some v \<Rightarrow> v) = ?V"
    by (simp add: k demo_world_def)
  have h5: "map_of [(''results'', JArr [JObj [(''id'', JInt 1)]])] ''results''
              = Some (JArr [JObj [(''id'', JInt 1)]])"
    by simp
  from call_cache_hit_short_circuit [OF h1 h2 h3 h4 h5] show ?thesis
    by (simp add: k demo_world_def)
qed

theorem falsy_cache_hit_counterexample:
  "call (demo_session (Some falsy_store_cache)) [SegStr ''comics'', SegInt 1] (Some [])
     (demo_world 200 (JObj [(''results'', JArr [JObj [(''id'', JInt 2)]])])
        [(''http://gateway.marvel.com:80/v1/public/comics/1'',
          JObj [(''results'', JArr [JObj [(''id'', JInt 1)]])])])
   = (Inr (JArr [JObj [(''id'', JInt 2)]]),
      [(''hash'', PStr ''md5(2024-05-0112:00:00privpub)''), (''apikey'', PStr ''pub''),
       (''ts'', PStr ''2024-05-0112:00:00'')],
      (demo_world 200 (JObj [(''results'', JArr [JObj [(''id'', JInt 2)]])])
        [(''http://gateway.marvel.com:80/v1/public/comics/1'',
          JObj [(''results'', JArr [JObj [(''id'', JInt 1)]])])])
        \<lparr>ticks := 1,
         trace := [HttpGet ''http://gateway.marvel.com:80/v1/public/comics/1''
            [(''hash'', PStr ''md5(2024-05-0112:00:00privpub)''), (''apikey'', PStr ''pub''),
             (''ts'', PStr ''2024-05-0112:00:00'')]
            [(''User-Agent'', ''esak/2.0.0 (Linux; 6.1.0)'')]]\<rparr>)"
  by (simp add: eval_call eval_key Let_def)

subsection \<open>The cache key\<close>

text \<open>
  C3. Two parameter dicts with the same items, in whatever insertion order, give the same
  cache key for the same endpoint. For an empty dict the key is the joined URL; for a
  non-empty dict it is the joined URL, then \<open>?\<close>, then the URL-encoding of the items
  rearranged so that their names ascend.
\<close>

theorem cache_key_deterministic:
  assumes "distinct (map fst P1)" and "distinct (map fst P2)" and "set P1 = set P2"
  shows "cache_key E P1 = cache_key E P2
     \<and> (P1 = [] \<longrightarrow> cache_key E P1 = api_url_format E)
     \<and> (P1 \<noteq> [] \<longrightarrow> (\<exists>qs. mset qs = mset P1 \<and> sorted (map fst qs)
            \<and> cache_key E P1 = api_url_format E @ ''?'' @ urlencode qs))"
proof (intro conjI impI)
  from assms have s: "sort_key fst P1 = sort_key fst P2" by (rule sort_key_fst_unique)
  from assms(3) have "P1 = [] \<longleftrightarrow> P2 = []" by (metis set_empty)
  with s show "cache_key E P1 = cache_key E P2"
    by (simp add: cache_key_def create_cached_params_def)
next
  assume "P1 = []"
  then show "cache_key E P1 = api_url_format E"
    by (simp add: cache_key_def create_cached_params_def)
next
  assume ne: "P1 \<noteq> []"
  have "mset (sort_key fst P1) = mset P1" by simp
  moreover have "sorted (map fst (sort_key fst P1))" by (rule sorted_sort_key)
  moreover from ne have "cache_key E P1 = api_url_format E @ ''?'' @ urlencode (sort_key fst P1)"
    by (simp add: cache_key_def create_cached_params_def)
  ultimately show "\<exists>qs. mset qs = mset P1 \<and> sorted (map fst qs)
            \<and> cache_key E P1 = api_url_format E @ ''?'' @ urlencode qs"
    by blast
qed

theorem cache_key_deterministic_witness:
  "cache_key [SegStr ''comics'', SegInt 45762, SegStr ''characters'']
     [(''orderBy'', PStr ''modified date''), (''limit'', PInt 20)]
   = cache_key [SegStr ''comics'', SegInt 45762, SegStr ''characters'']
     [(''limit'', PInt 20), (''orderBy'', PStr ''modified date'')]
   \<and> cache_key [SegStr ''comics'', SegInt 45762, SegStr ''characters'']
     [(''orderBy'', PStr ''modified date''), (''limit'', PInt 20)]
   = ''http://gateway.marvel.com:80/v1/public/comics/45762/characters?limit=20&orderBy=modified+date''"
proof -
  let ?P1 = "[(''orderBy'', PStr ''modified date''), (''limit'', PInt 20)]"
  let ?P2 = "[(''limit'', PInt 20), (''orderBy'', PStr ''modified date'')]"
  have h1: "distinct (map fst ?P1)" by simp
  have h2: "distinct (map fst ?P2)" by simp
  have h3: "set ?P1 = set ?P2" by auto
  have v: "cache_key [SegStr ''comics'', SegInt 45762, SegStr ''characters''] ?P1
     = ''http://gateway.marvel.com:80/v1/public/comics/45762/characters?limit=20&orderBy=modified+date''"
    by (simp add: eval_key)
  from cache_key_deterministic [OF h1 h2 h3, of "[SegStr ''comics'', SegInt 45762, SegStr ''characters'']"] v
  show ?thesis by blast
qed

subsection \<open>Authentication\<close>

text \<open>
  C9. After \<open>_update_params\<close>, the item \<open>hash\<close> of the params is the hexadecimal MD5
  digest of the timestamp string followed by the private key followed by the public key,
  and the item \<open>ts\<close> is that same timestamp string: the clock is read once.
\<close>

theorem update_params_signature:
  "map_of (fst (update_params s params w)) ''hash''
     = Some (PStr (md5_hexdigest w (clock w (ticks w) @ private_key s @ public_key s)))
   \<and> map_of (fst (update_params s params w)) ''ts'' = Some (PStr (clock w (ticks w)))
   \<and> ticks (snd (update_params s params w)) = Suc (ticks w)"
  by (simp add: update_params_def create_auth_hash_def md5_new_def md5_update_def Let_def
      map_of_dict_set)

subsection \<open>Classification of the response\<close>

text \<open>
  C4. After a lookup that found nothing, when the server answers with a JSON object that
  has a \<open>message\<close> field, \<open>_call\<close> raises \<open>ApiError\<close> with that message, whatever
  the HTTP status code (200 included), and nothing is stored in the cache: the state of
  the cache collaborator is unchanged and \<open>store\<close> is not called.
\<close>

theorem message_body_raises_api_error:
  assumes "fst (get_results_from_cache s (cache_key E P) w) = Inr JNull"
    and "remote w (api_url_format E) (fst (update_params s P w)) (headers s) = Inr response"
    and "body response = Some (JObj kvs)"
    and "map_of kvs ''message'' = Some m"
  shows "fst (call s E (Some P) w) = Inl (ApiError m)
     \<and> cache_state (snd (snd (call s E (Some P) w))) = cache_state w
     \<and> filter is_store (new_events w (snd (snd (call s E (Some P) w)))) = []"
proof -
  from call_on_miss [OF assms(1,2)] obtain w3 pre where
    w3: "cache_state w3 = cache_state w" "trace w3 = trace w @ pre" "filter is_store pre = []"
    and c: "call s E (Some P) w =
              (case handle_response s (cache_key E P) response w3 of
                 (r, w4) \<Rightarrow> (r, fst (update_params s P w), w4))"
    by blast
  from c handle_message [OF assms(3,4), of s "cache_key E P" w3]
  have "call s E (Some P) w = (Inl (ApiError m), fst (update_params s P w), w3)"
    by simp
  with w3 show ?thesis by (simp add: new_events_def)
qed

theorem message_body_raises_api_error_witness:
  "fst (call (demo_session (Some memory_cache)) [SegStr ''comics'', SegInt 1] (Some [])
          (demo_world 200 (JObj [(''message'', JStr ''bad key'')]) []))
     = Inl (ApiError (JStr ''bad key''))
   \<and> cache_state (snd (snd (call (demo_session (Some memory_cache))
          [SegStr ''comics'', SegInt 1] (Some [])
          (demo_world 200 (JObj [(''message'', JStr ''bad key'')]) [])))) = []"
proof -
  let ?s = "demo_session (Some memory_cache)"
  let ?w = "demo_world 200 (JObj [(''message'', JStr ''bad key'')]) []"
  let ?resp = "\<lparr>status_code = 200, body = Some (JObj [(''message'', JStr ''bad key'')])\<rparr>"
  have h1: "fst (get_results_from_cache ?s (cache_key [SegStr ''comics'', SegInt 1] []) ?w) = Inr JNull"
    by (simp add: get_results_from_cache_def demo_session_def demo_world_def memory_cache_def)
  have h2: "remote ?w (api_url_format [SegStr ''comics'', SegInt 1])
              (fst (update_params ?s [] ?w)) (headers ?s) = Inr ?resp"
    by (simp add: demo_world_def)
  have h3: "body ?resp = Some (JObj [(''message'', JStr ''bad key'')])"
    by simp
  have h4: "map_of [(''message'', JStr ''bad key'')] ''message'' = Some (JStr ''bad key'')"
    by simp
  have cs: "cache_state ?w = []"
    by (simp add: demo_world_def)
  from message_body_raises_api_error [OF h1 h2 h3 h4] cs show ?thesis
    by simp
qed

text \<open>
  C5, as the code has it. The HTTP status code does not make \<open>_call\<close> fail. After a
  lookup that found nothing, for a JSON object without \<open>message\<close>: a \<open>code\<close> field
  whose value is not 200 raises \<open>ApiError\<close> with the \<open>status\<close> field (\<open>None\<close> when
  absent), whatever the HTTP status code; without such a field, a response whose HTTP
  status code is not 200 is answered from its \<open>results\<close> like any other, and only is
  not stored in the cache.
\<close>

theorem error_code_raises_api_error:
  assumes "fst (get_results_from_cache s (cache_key E P) w) = Inr JNull"
    and "remote w (api_url_format E) (fst (update_params s P w)) (headers s) = Inr response"
    and "body response = Some (JObj kvs)"
    and "map_of kvs ''message'' = None"
  shows "(\<forall>c. map_of kvs ''code'' = Some c \<and> py_ne_200 c \<longrightarrow>
            fst (call s E (Some P) w)
              = Inl (ApiError (case map_of kvs ''status'' of None \<Rightarrow> JNull | Some v \<Rightarrow> v))
          \<and> cache_state (snd (snd (call s E (Some P) w))) = cache_state w
          \<and> filter is_store (new_events w (snd (snd (call s E (Some P) w)))) = [])
     \<and> ((case map_of kvs ''code'' of None \<Rightarrow> True | Some c \<Rightarrow> \<not> py_ne_200 c)
          \<and> status_code response \<noteq> 200 \<longrightarrow>
            fst (call s E (Some P) w)
              = py_getitem (case map_of kvs ''data'' of None \<Rightarrow> JObj kvs | Some d \<Rightarrow> d) ''results''
          \<and> cache_state (snd (snd (call s E (Some P) w))) = cache_state w
          \<and> filter is_store (new_events w (snd (snd (call s E (Some P) w)))) = [])"
proof -
  from call_on_miss [OF assms(1,2)] obtain w3 pre where
    w3: "cache_state w3 = cache_state w" "trace w3 = trace w @ pre" "filter is_store pre = []"
    and c: "call s E (Some P) w =
              (case handle_response s (cache_key E P) response w3 of
                 (r, w4) \<Rightarrow> (r, fst (update_params s P w), w4))"
    by blast
  have a: "fst (call s E (Some P) w)
              = Inl (ApiError (case map_of kvs ''status'' of None \<Rightarrow> JNull | Some v \<Rightarrow> v))
          \<and> cache_state (snd (snd (call s E (Some P) w))) = cache_state w
          \<and> filter is_store (new_events w (snd (snd (call s E (Some P) w)))) = []"
    if "map_of kvs ''code'' = Some c" and "py_ne_200 c" for c
    using c handle_code [OF assms(3,4) that, of s "cache_key E P" w3] w3
    by (simp add: new_events_def)
  have b: "fst (call s E (Some P) w)
              = py_getitem (case map_of kvs ''data'' of None \<Rightarrow> JObj kvs | Some d \<Rightarrow> d) ''results''
          \<and> cache_state (snd (snd (call s E (Some P) w))) = cache_state w
          \<and> filter is_store (new_events w (snd (snd (call s E (Some P) w)))) = []"
    if "case map_of kvs ''code'' of None \<Rightarrow> True | Some c \<Rightarrow> \<not> py_ne_200 c"
      and "status_code response \<noteq> 200"
    using c handle_pass [OF assms(3,4) that(1), of s "cache_key E P" w3] w3 that(2)
    by (simp add: new_events_def Let_def)
  from a b show ?thesis by blast
qed

theorem error_code_raises_api_error_witness:
  "fst (call (demo_session (Some memory_cache)) [SegStr ''comics'', SegInt 1] (Some [])
          (demo_world 404 (JObj [(''code'', JInt 404), (''status'', JStr ''not found'')]) []))
     = Inl (ApiError (JStr ''not found''))"
proof -
  let ?s = "demo_session (Some memory_cache)"
  let ?b = "[(''code'', JInt 404), (''status'', JStr ''not found'')]"
  let ?w = "demo_world 404 (JObj ?b) []"
  let ?resp = "\<lparr>status_code = 404, body = Some (JObj ?b)\<rparr>"
  have h1: "fst (get_results_from_cache ?s (cache_key [SegStr ''comics'', SegInt 1] []) ?w) = Inr JNull"
    by (simp add: get_results_from_cache_def demo_session_def demo_world_def memory_cache_def)
  have h2: "remote ?w (api_url_format [SegStr ''comics'', SegInt 1])
              (fst (update_params ?s [] ?w)) (headers ?s) = Inr ?resp"
    by (simp add: demo_world_def)
  have h3: "body ?resp = Some (JObj ?b)"
    by simp
  have h4: "map_of ?b ''message'' = None"
    by simp
  have h5: "map_of ?b ''code'' = Some (JInt 404) \<and> py_ne_200 (JInt 404)"
    by simp
  from error_code_raises_api_error [OF h1 h2 h3 h4] h5 show ?thesis
    by simp
qed

theorem non_200_status_counterexample:
  "fst (call (demo_session None) [SegStr ''comics'', SegInt 1] None
          (demo_world 404 (JObj [(''results'', JArr [JObj [(''id'', JInt 1)]])]) ()))
     = Inr (JArr [JObj [(''id'', JInt 1)]])"
  by (simp add: eval_call eval_key Let_def)

text \<open>
  C6, as the code has it. After a lookup that found nothing, when the response passes the
  classification (a JSON object without \<open>message\<close> and without a \<open>code\<close> other than
  200) and its unwrapped body is an object without \<open>results\<close>, \<open>_call\<close> raises
  \<open>KeyError\<close>, not \<open>ApiError\<close>; only a cache write that fails first, on a status of
  200 and a cache object without \<open>store\<close>, raises \<open>CacheError\<close> instead.
\<close>

theorem missing_results_raises_key_error:
  assumes "fst (get_results_from_cache s (cache_key E P) w) = Inr JNull"
    and "remote w (api_url_format E) (fst (update_params s P w)) (headers s) = Inr response"
    and "body response = Some (JObj kvs)"
    and "map_of kvs ''message'' = None"
    and "case map_of kvs ''code'' of None \<Rightarrow> True | Some c \<Rightarrow> \<not> py_ne_200 c"
    and "(case map_of kvs ''data'' of None \<Rightarrow> JObj kvs | Some d \<Rightarrow> d) = JObj inner"
    and "map_of inner ''results'' = None"
  shows "fst (call s E (Some P) w) =
           (if status_code response = 200
               \<and> (\<exists>c. cache s = Some c \<and> truthy c \<and> store_op c = None)
            then Inl (CacheError ''store'') else Inl (KeyError ''results''))"
proof -
  from call_on_miss [OF assms(1,2)] obtain w3 where
    c: "call s E (Some P) w =
              (case handle_response s (cache_key E P) response w3 of
                 (r, w4) \<Rightarrow> (r, fst (update_params s P w), w4))"
    by blast
  show ?thesis
    using c handle_pass [OF assms(3,4,5), of s "cache_key E P" w3] assms(6,7)
    by (auto simp: Let_def save_results_to_cache_def split: option.splits)
qed

theorem missing_results_raises_key_error_witness:
  "fst (call (demo_session (Some memory_cache)) [SegStr ''comics'', SegInt 1] (Some [])
          (demo_world 200 (JObj [(''data'', JObj [(''count'', JInt 0)])]) []))
     = Inl (KeyError ''results'')"
proof -
  let ?s = "demo_session (Some memory_cache)"
  let ?b = "[(''data'', JObj [(''count'', JInt 0)])]"
  let ?w = "demo_world 200 (JObj ?b) []"
  let ?resp = "\<lparr>status_code = 200, body = Some (JObj ?b)\<rparr>"
  have h1: "fst (get_results_from_cache ?s (cache_key [SegStr ''comics'', SegInt 1] []) ?w) = Inr JNull"
    by (simp add: get_results_from_cache_def demo_session_def demo_world_def memory_cache_def)
  have h2: "remote ?w (api_url_format [SegStr ''comics'', SegInt 1])
              (fst (update_params ?s [] ?w)) (headers ?s) = Inr ?resp"
    by (simp add: demo_world_def)
  have h3: "body ?resp = Some (JObj ?b)"
    by simp
  have h4: "map_of ?b ''message'' = None"
    by simp
  have h5: "case map_of ?b ''code'' of None \<Rightarrow> True | Some c \<Rightarrow> \<not> py_ne_200 c"
    by simp
  have h6: "(case map_of ?b ''data'' of None \<Rightarrow> JObj ?b | Some d \<Rightarrow> d) = JObj [(''count'', JInt 0)]"
    by simp
  have h7: "map_of [(''count'', JInt 0)] ''results'' = None"
    by simp
  from missing_results_raises_key_error [OF h1 h2 h3 h4 h5 h6 h7] show ?thesis
    by (simp add: demo_session_def memory_cache_def)
qed

theorem missing_results_counterexample:
  "fst (call (demo_session None) [SegStr ''comics'', SegInt 1] None
          (demo_world 200 (JObj [(''data'', JObj [(''count'', JInt 0)])]) ()))
     = Inl (KeyError ''results'')"
  by (simp add: eval_call eval_key Let_def)

subsection \<open>A cache object without the expected methods\<close>

text \<open>A cache object whose truth value is false counts as no cache at all.\<close>

lemma falsy_as_none:
  assumes "cache s = Some c" and "\<not> truthy c"
  shows "call s E pa w = call (s\<lparr>cache := None\<rparr>) E pa w"
proof -
  have l: "get_results_from_cache s k v = get_results_from_cache (s\<lparr>cache := None\<rparr>) k v"
    for k and v :: "'a world"
    using assms by (simp add: get_results_from_cache_def)
  have sv: "save_results_to_cache s k d v = save_results_to_cache (s\<lparr>cache := None\<rparr>) k d v"
    for k d and v :: "'a world"
    using assms by (simp add: save_results_to_cache_def)
  have h: "handle_response s k r v = handle_response (s\<lparr>cache := None\<rparr>) k r v"
    for k r and v :: "'a world"
    unfolding handle_response_def sv ..
  have u: "update_params s P v = update_params (s\<lparr>cache := None\<rparr>) P v"
    for P and v :: "'a world"
    by (simp add: update_params_def create_auth_hash_def)
  have hd: "headers (s\<lparr>cache := None\<rparr>) = headers s"
    by simp
  show ?thesis
    unfolding call_def l h u hd ..
qed

text \<open>
  C8, as the code has it. \<open>_call\<close> consults the cache object only when its truth value
  is true. For such an object: without \<open>get\<close> the call raises \<open>CacheError\<close> at the
  lookup and does nothing else (no request is sent, the params are untouched); with a
  \<open>get\<close> that finds nothing but without \<open>store\<close>, a response with status 200 that
  passes the classification raises \<open>CacheError\<close> at the cache write. An object whose
  truth value is false is not consulted, whatever methods it has or lacks: the call does
  what it does for a session without a cache.
\<close>

theorem malformed_cache_raises_cache_error:
  assumes "cache s = Some c"
  shows "(truthy c \<and> get_op c = None \<longrightarrow>
            call s E (Some P) w = (Inl (CacheError ''get''), P, w))
     \<and> (\<forall>g response kvs.
           truthy c \<and> get_op c = Some g \<and> g (cache_state w) (cache_key E P) = JNull
           \<and> store_op c = None
           \<and> remote w (api_url_format E) (fst (update_params s P w)) (headers s) = Inr response
           \<and> status_code response = 200 \<and> body response = Some (JObj kvs)
           \<and> map_of kvs ''message'' = None
           \<and> (case map_of kvs ''code'' of None \<Rightarrow> True | Some c \<Rightarrow> \<not> py_ne_200 c)
           \<longrightarrow> fst (call s E (Some P) w) = Inl (CacheError ''store''))
     \<and> (\<not> truthy c \<longrightarrow> call s E (Some P) w = call (s\<lparr>cache := None\<rparr>) E (Some P) w)"
proof (intro conjI impI allI)
  assume "truthy c \<and> get_op c = None"
  with assms show "call s E (Some P) w = (Inl (CacheError ''get''), P, w)"
    by (simp add: call_def get_results_from_cache_def Let_def)
next
  fix g response kvs
  assume h: "truthy c \<and> get_op c = Some g \<and> g (cache_state w) (cache_key E P) = JNull
           \<and> store_op c = None
           \<and> remote w (api_url_format E) (fst (update_params s P w)) (headers s) = Inr response
           \<and> status_code response = 200 \<and> body response = Some (JObj kvs)
           \<and> map_of kvs ''message'' = None
           \<and> (case map_of kvs ''code'' of None \<Rightarrow> True | Some c \<Rightarrow> \<not> py_ne_200 c)"
  from h assms have miss: "fst (get_results_from_cache s (cache_key E P) w) = Inr JNull"
    by (simp add: get_results_from_cache_def)
  from h have resp:
    "remote w (api_url_format E) (fst (update_params s P w)) (headers s) = Inr response"
    by simp
  from call_on_miss [OF miss resp] obtain w3 where
    c: "call s E (Some P) w =
              (case handle_response s (cache_key E P) response w3 of
                 (r, w4) \<Rightarrow> (r, fst (update_params s P w), w4))"
    by blast
  from h have b: "body response = Some (JObj kvs)" and m: "map_of kvs ''message'' = None"
    and k: "case map_of kvs ''code'' of None \<Rightarrow> True | Some c \<Rightarrow> \<not> py_ne_200 c"
    by simp_all
  show "fst (call s E (Some P) w) = Inl (CacheError ''store'')"
    using c handle_pass [OF b m k, of s "cache_key E P" w3] h assms
    by (simp add: Let_def save_results_to_cache_def)
next
  assume "\<not> truthy c"
  with assms show "call s E (Some P) w = call (s\<lparr>cache := None\<rparr>) E (Some P) w"
    by (rule falsy_as_none)
qed

theorem malformed_cache_raises_cache_error_witness:
  "call (demo_session (Some list_cache)) [SegStr ''comics'', SegInt 1] (Some [])
        (demo_world 200 (JObj [(''results'', JArr [])]) [])
     = (Inl (CacheError ''get''), [], demo_world 200 (JObj [(''results'', JArr [])]) [])
   \<and> fst (call (demo_session (Some dict_cache)) [SegStr ''comics'', SegInt 1] (Some [])
        (demo_world 200 (JObj [(''results'', JArr [])]) [(''a'', JInt 1)]))
     = Inl (CacheError ''store'')
   \<and> call (demo_session (Some empty_list_cache)) [SegStr ''comics'', SegInt 1] (Some [])
        (demo_world 200 (JObj [(''results'', JArr [])]) [])
     = call (demo_session None) [SegStr ''comics'', SegInt 1] (Some [])
        (demo_world 200 (JObj [(''results'', JArr [])]) [])"
proof -
  let ?b = "[(''results'', JArr [])]"
  let ?E = "[SegStr ''comics'', SegInt 1]"
  let ?w = "demo_world 200 (JObj ?b) [(''a'', JInt 1)]"
  let ?s = "demo_session (Some dict_cache)"
  let ?g = "\<lambda>st k. case map_of st k of None \<Rightarrow> JNull | Some (v::json) \<Rightarrow> v"
  let ?resp = "\<lparr>status_code = 200, body = Some (JObj ?b)\<rparr>"
  have l1: "cache (demo_session (Some list_cache)) = Some list_cache"
    by (simp add: demo_session_def)
  have l3: "truthy list_cache \<and> get_op list_cache = None"
    by (simp add: list_cache_def)
  have d1: "cache ?s = Some dict_cache"
    by (simp add: demo_session_def)
  have k: "cache_key ?E [] = ''http://gateway.marvel.com:80/v1/public/comics/1''"
    by (simp add: eval_key)
  have d3: "truthy dict_cache \<and> get_op dict_cache = Some ?g
      \<and> ?g (cache_state ?w) (cache_key ?E []) = JNull
      \<and> store_op dict_cache = None
      \<and> remote ?w (api_url_format ?E) (fst (update_params ?s [] ?w)) (headers ?s) = Inr ?resp
      \<and> status_code ?resp = 200 \<and> body ?resp = Some (JObj ?b)
      \<and> map_of ?b ''message'' = None
      \<and> (case map_of ?b ''code'' of None \<Rightarrow> True | Some c \<Rightarrow> \<not> py_ne_200 c)"
    by (simp add: dict_cache_def demo_world_def k)
  have e1: "cache (demo_session (Some empty_list_cache)) = Some empty_list_cache"
    by (simp add: demo_session_def)
  have e2: "\<not> truthy empty_list_cache"
    by (simp add: empty_list_cache_def)
  have e3: "(demo_session (Some empty_list_cache))\<lparr>cache := None\<rparr>
              = (demo_session None :: (string \<times> json) list session)"
    by (simp add: demo_session_def)
  from malformed_cache_raises_cache_error [OF l1, of ?E "[]"] l3
  have a: "call (demo_session (Some list_cache)) ?E (Some [])
        (demo_world 200 (JObj ?b) [])
     = (Inl (CacheError ''get''), [], demo_world 200 (JObj ?b) [])"
    by blast
  from malformed_cache_raises_cache_error [OF d1, of ?E "[]" ?w] d3
  have b: "fst (call ?s ?E (Some []) ?w) = Inl (CacheError ''store'')"
    by blast
  from malformed_cache_raises_cache_error [OF e1, of ?E "[]"] e2 e3
  have c: "call (demo_session (Some empty_list_cache)) ?E (Some [])
        (demo_world 200 (JObj ?b) [])
     = call (demo_session None) ?E (Some []) (demo_world 200 (JObj ?b) [])"
    by simp
  from a b c show ?thesis by blast
qed

theorem falsy_cache_counterexample:
  "call (demo_session (Some empty_list_cache)) [SegStr ''comics'', SegInt 1] (Some [])
        (demo_world 200 (JObj [(''results'', JArr [])]) [])
     = (Inr (JArr []),
        [(''hash'', PStr ''md5(2024-05-0112:00:00privpub)''), (''apikey'', PStr ''pub''),
         (''ts'', PStr ''2024-05-0112:00:00'')],
        (demo_world 200 (JObj [(''results'', JArr [])]) [])
          \<lparr>ticks := 1,
           trace := [HttpGet ''http://gateway.marvel.com:80/v1/public/comics/1''
              [(''hash'', PStr ''md5(2024-05-0112:00:00privpub)''), (''apikey'', PStr ''pub''),
               (''ts'', PStr ''2024-05-0112:00:00'')]
              [(''User-Agent'', ''esak/2.0.0 (Linux; 6.1.0)'')]]\<rparr>)"
  by (simp add: eval_call eval_key Let_def)

subsection \<open>The params of the caller\<close>

text \<open>
  C10. On a cache hit (the lookup returns a value that is not \<open>None\<close>) \<open>_call\<close>
  leaves the params of the caller as they were. The fields \<open>hash\<close>, \<open>apikey\<close> and
  \<open>ts\<close> are set on the path of a miss only: when the lookup returns \<open>None\<close>, the
  params after the call are those \<open>_update_params\<close> produces.
\<close>

theorem cache_hit_keeps_params:
  assumes "fst (get_results_from_cache s (cache_key E P) w) = Inr V"
  shows "(V \<noteq> JNull \<longrightarrow> fst (snd (call s E (Some P) w)) = P)
     \<and> (V = JNull \<longrightarrow> fst (snd (call s E (Some P) w)) = fst (update_params s P w))"
proof (intro conjI impI)
  obtain w1 where g: "get_results_from_cache s (cache_key E P) w = (Inr V, w1)"
    using assms by (cases "get_results_from_cache s (cache_key E P) w") auto
  {
    assume "V \<noteq> JNull"
    with g show "fst (snd (call s E (Some P) w)) = P"
      by (simp add: call_def cache_key_def Let_def)
  next
    assume v: "V = JNull"
    note fr = lookup_frame [OF g]
    have "fst (update_params s P w1) = fst (update_params s P w)"
      using fr by (intro update_params_frame) simp_all
    then obtain w2 where u: "update_params s P w1 = (fst (update_params s P w), w2)"
      by (metis prod.collapse)
    from g v show "fst (snd (call s E (Some P) w)) = fst (update_params s P w)"
      by (simp add: call_def cache_key_def Let_def u split: prod.splits sum.splits)
  }
qed

theorem cache_hit_keeps_params_witness:
  "fst (snd (call (demo_session (Some memory_cache)) [SegStr ''comics''] (Some [(''limit'', PInt 5)])
     (demo_world 200 JNull
        [(''http://gateway.marvel.com:80/v1/public/comics?limit=5'',
          JObj [(''results'', JArr [])])])))
   = [(''limit'', PInt 5)]"
proof -
  let ?K = "''http://gateway.marvel.com:80/v1/public/comics?limit=5''"
  let ?V = "JObj [(''results'', JArr [])]"
  let ?w = "demo_world 200 JNull [(?K, ?V)]"
  have k: "cache_key [SegStr ''comics''] [(''limit'', PInt 5)] = ?K"
    by (simp add: eval_key)
  have h: "fst (get_results_from_cache (demo_session (Some memory_cache))
             (cache_key [SegStr ''comics''] [(''limit'', PInt 5)]) ?w) = Inr ?V"
    by (simp add: k get_results_from_cache_def demo_session_def demo_world_def memory_cache_def)
  have n: "?V \<noteq> JNull" by simp
  from cache_hit_keeps_params [OF h] n show ?thesis by blast
qed

subsection \<open>Singular fetches\<close>

text \<open>What a singular fetch makes of the result of \<open>_call\<close>.\<close>

lemma comic_result:
  "fst (comic V s i w) =
     (case fst (call s [SegStr ''comics'', SegInt i] None w) of
        Inl e \<Rightarrow> Inl e
      | Inr results \<Rightarrow>
          (case py_index0 results of
             Inl e \<Rightarrow> Inl e
           | Inr x \<Rightarrow> (case V x of Inl err \<Rightarrow> Inl (ApiErrorValidation err) | Inr r \<Rightarrow> Inr r)))"
  by (simp add: comic_def split: prod.splits sum.splits)

lemma series_result:
  "fst (series V s i w) =
     (case fst (call s [SegStr ''series'', SegInt i] None w) of
        Inl e \<Rightarrow> Inl e
      | Inr results \<Rightarrow>
          (case py_index0 results of
             Inl e \<Rightarrow> Inl e
           | Inr x \<Rightarrow> (case V x of Inl err \<Rightarrow> Inl (ApiErrorValidation err) | Inr r \<Rightarrow> Inr r)))"
  by (simp add: series_def split: prod.splits sum.splits)

lemma creator_result:
  "fst (creator V s i w) =
     (case fst (call s [SegStr ''creators'', SegInt i] None w) of
        Inl e \<Rightarrow> Inl e
      | Inr results \<Rightarrow>
          (case py_index0 results of
             Inl e \<Rightarrow> Inl e
           | Inr x \<Rightarrow> (case V x of Inl err \<Rightarrow> Inl (ApiErrorValidation err) | Inr r \<Rightarrow> Inr r)))"
  by (simp add: creator_def split: prod.splits sum.splits)

lemma character_result:
  "fst (character V s i w) =
     (case fst (call s [SegStr ''characters'', SegInt i] None w) of
        Inl e \<Rightarrow> Inl e
      | Inr results \<Rightarrow>
          (case py_index0 results of
             Inl e \<Rightarrow> Inl e
           | Inr x \<Rightarrow> (case V x of Inl err \<Rightarrow> Inl (ApiErrorValidation err) | Inr r \<Rightarrow> Inr r)))"
  by (simp add: character_def split: prod.splits sum.splits)

lemma story_result:
  "fst (story V s i w) =
     (case fst (call s [SegStr ''stories'', SegInt i] None w) of
        Inl e \<Rightarrow> Inl e
      | Inr results \<Rightarrow>
          (case py_index0 results of
             Inl e \<Rightarrow> Inl e
           | Inr x \<Rightarrow> (case V x of Inl err \<Rightarrow> Inl (ApiErrorValidation err) | Inr r \<Rightarrow> Inr r)))"
  by (simp add: story_def split: prod.splits sum.splits)

lemma event_result:
  "fst (event V s i w) =
     (case fst (call s [SegStr ''events'', SegInt i] None w) of
        Inl e \<Rightarrow> Inl e
      | Inr results \<Rightarrow>
          (case py_index0 results of
             Inl e \<Rightarrow> Inl e
           | Inr x \<Rightarrow> (case V x of Inl err \<Rightarrow> Inl (ApiErrorValidation err) | Inr r \<Rightarrow> Inr r)))"
  by (simp add: event_def split: prod.splits sum.splits)

text \<open>
  C7, as the code has it. For each of the six singular fetches: when \<open>_call\<close> returns
  an empty array, the method raises \<open>IndexError\<close> (only a validation fault is raised
  again as \<open>ApiError\<close>); when it returns an array with at least one element, element 0
  is validated into the record, and a validation fault becomes \<open>ApiError\<close>.
\<close>

theorem singular_fetch_indexing:
  "(fst (call s [SegStr ''comics'', SegInt i] None w) = Inr (JArr [])
      \<longrightarrow> fst (comic V1 s i w) = Inl IndexError)
   \<and> (fst (call s [SegStr ''comics'', SegInt i] None w) = Inr (JArr (x # xs))
      \<longrightarrow> fst (comic V1 s i w)
            = (case V1 x of Inl err \<Rightarrow> Inl (ApiErrorValidation err) | Inr r \<Rightarrow> Inr r))
   \<and> (fst (call s [SegStr ''series'', SegInt i] None w) = Inr (JArr [])
      \<longrightarrow> fst (series V2 s i w) = Inl IndexError)
   \<and> (fst (call s [SegStr ''series'', SegInt i] None w) = Inr (JArr (x # xs))
      \<longrightarrow> fst (series V2 s i w)
            = (case V2 x of Inl err \<Rightarrow> Inl (ApiErrorValidation err) | Inr r \<Rightarrow> Inr r))
   \<and> (fst (call s [SegStr ''creators'', SegInt i] None w) = Inr (JArr [])
      \<longrightarrow> fst (creator V3 s i w) = Inl IndexError)
   \<and> (fst (call s [SegStr ''creators'', SegInt i] None w) = Inr (JArr (x # xs))
      \<longrightarrow> fst (creator V3 s i w)
            = (case V3 x of Inl err \<Rightarrow> Inl (ApiErrorValidation err) | Inr r \<Rightarrow> Inr r))
   \<and> (fst (call s [SegStr ''characters'', SegInt i] None w) = Inr (JArr [])
      \<longrightarrow> fst (character V4 s i w) = Inl IndexError)
   \<and> (fst (call s [SegStr ''characters'', SegInt i] None w) = Inr (JArr (x # xs))
      \<longrightarrow> fst (character V4 s i w)
            = (case V4 x of Inl err \<Rightarrow> Inl (ApiErrorValidation err) | Inr r \<Rightarrow> Inr r))
   \<and> (fst (call s [SegStr ''stories'', SegInt i] None w) = Inr (JArr [])
      \<longrightarrow> fst (story V5 s i w) = Inl IndexError)
   \<and> (fst (call s [SegStr ''stories'', SegInt i] None w) = Inr (JArr (x # xs))
      \<longrightarrow> fst (story V5 s i w)
            = (case V5 x of Inl err \<Rightarrow> Inl (ApiErrorValidation err) | Inr r \<Rightarrow> Inr r))
   \<and> (fst (call s [SegStr ''events'', SegInt i] None w) = Inr (JArr [])
      \<longrightarrow> fst (event V6 s i w) = Inl IndexError)
   \<and> (fst (call s [SegStr ''events'', SegInt i] None w) = Inr (JArr (x # xs))
      \<longrightarrow> fst (event V6 s i w)
            = (case V6 x of Inl err \<Rightarrow> Inl (ApiErrorValidation err) | Inr r \<Rightarrow> Inr r))"
  by (simp add: comic_result series_result creator_result character_result story_result
      event_result)

theorem singular_fetch_indexing_witness:
  "fst (comic validate_id (demo_session None) 45762
          (demo_world 200 (JObj [(''data'', JObj [(''results'', JArr [JObj [(''id'', JInt 45762)]])])]) ()))
     = Inr 45762
   \<and> fst (creator validate_id (demo_session None) 11463
          (demo_world 200 (JObj [(''data'', JObj [(''results'', JArr [])])]) ()))
     = Inl IndexError"
proof -
  let ?s = "demo_session None :: unit session"
  let ?x = "JObj [(''id'', JInt 45762)]"
  let ?w1 = "demo_world 200 (JObj [(''data'', JObj [(''results'', JArr [?x])])]) ()"
  let ?w2 = "demo_world 200 (JObj [(''data'', JObj [(''results'', JArr [])])]) ()"
  have h1: "fst (call ?s [SegStr ''comics'', SegInt 45762] None ?w1) = Inr (JArr (?x # []))"
    by (simp add: eval_call eval_key Let_def)
  have h2: "fst (call ?s [SegStr ''creators'', SegInt 11463] None ?w2) = Inr (JArr [])"
    by (simp add: eval_call eval_key Let_def)
  have v: "validate_id ?x = Inr 45762"
    by (simp add: validate_id_def)
  from singular_fetch_indexing
    [where s = ?s and i = 45762 and w = ?w1 and ?V1.0 = validate_id and x = ?x and xs = "[]",
      THEN conjunct2, THEN conjunct1] h1 v
  have a: "fst (comic validate_id ?s 45762 ?w1) = Inr 45762"
    by simp
  from singular_fetch_indexing
    [where s = ?s and i = 11463 and w = ?w2 and ?V3.0 = validate_id,
      THEN conjunct2, THEN conjunct2, THEN conjunct2, THEN conjunct2, THEN conjunct1] h2
  have b: "fst (creator validate_id ?s 11463 ?w2) = Inl IndexError"
    by simp
  from a b show ?thesis by simp
qed

theorem empty_results_counterexample:
  "fst (comic validate_id (demo_session None) 45762
          (demo_world 200 (JObj [(''data'', JObj [(''results'', JArr [])])]) ()))
     = Inl IndexError"
  by (simp add: comic_def eval_call eval_key Let_def)

subsection \<open>The cache key and the time of the call\<close>

text \<open>The events of the cache write and of the rest of \<open>_call\<close> name one key.\<close>

lemma save_trace:
  "trace (snd (save_results_to_cache s key d w)) = trace w
   \<or> trace (snd (save_results_to_cache s key d w)) = trace w @ [CacheStore key d]"
  by (simp add: save_results_to_cache_def split: option.splits)

lemma snd_case_result:
  "snd (case p of (Inl e, w4) \<Rightarrow> (Inl e, w4) | (Inr u, w4) \<Rightarrow> (f u, w4)) = snd p"
  by (cases p; cases "fst p") auto

lemma handle_world:
  "snd (handle_response s key r w) = w
   \<or> (\<exists>d. snd (handle_response s key r w) = snd (save_results_to_cache s key d w))"
proof (cases "response_json r")
  case (Inl e)
  then show ?thesis by (simp add: handle_response_def)
next
  case rj: (Inr data)
  show ?thesis
  proof (cases "py_contains ''message'' data")
    case (Inl e)
    with rj show ?thesis by (simp add: handle_response_def)
  next
    case pc: (Inr has_message)
    show ?thesis
    proof (cases has_message)
      case True
      with rj pc show ?thesis
        by (cases "py_getitem data ''message''") (simp_all add: handle_response_def)
    next
      case nm: False
      show ?thesis
      proof (cases "py_get data ''code'' (JInt 200)")
        case (Inl e)
        with rj pc nm show ?thesis by (simp add: handle_response_def)
      next
        case pg: (Inr code)
        show ?thesis
        proof (cases "py_ne_200 code")
          case True
          with rj pc nm pg show ?thesis
            by (cases "py_get data ''status'' JNull") (simp_all add: handle_response_def)
        next
          case ok: False
          show ?thesis
          proof (cases "py_contains ''data'' data")
            case (Inl e)
            with rj pc nm pg ok show ?thesis by (simp add: handle_response_def)
          next
            case pd: (Inr has_data)
            show ?thesis
            proof (cases "if has_data then py_getitem data ''data'' else Inr data")
              case (Inl e)
              with rj pc nm pg ok pd show ?thesis by (simp add: handle_response_def)
            next
              case un: (Inr inner)
              show ?thesis
              proof (cases "status_code r = 200")
                case True
                with rj pc nm pg ok pd un
                have "snd (handle_response s key r w) = snd (save_results_to_cache s key inner w)"
                  by (simp add: handle_response_def snd_case_result)
                then show ?thesis by blast
              next
                case False
                with rj pc nm pg ok pd un show ?thesis by (simp add: handle_response_def)
              qed
            qed
          qed
        qed
      qed
    qed
  qed
qed

lemma handle_trace:
  "\<exists>evs. trace (snd (handle_response s key r w)) = trace w @ evs
         \<and> set (concat (map event_keys evs)) \<subseteq> {key}"
proof -
  from handle_world [of s key r w] show ?thesis
  proof
    assume "snd (handle_response s key r w) = w"
    then have "trace (snd (handle_response s key r w)) = trace w @ []" by simp
    then show ?thesis by force
  next
    assume "\<exists>d. snd (handle_response s key r w) = snd (save_results_to_cache s key d w)"
    then obtain d where d: "snd (handle_response s key r w) = snd (save_results_to_cache s key d w)"
      by blast
    from save_trace [of s key d w] show ?thesis
    proof
      assume "trace (snd (save_results_to_cache s key d w)) = trace w"
      with d have "trace (snd (handle_response s key r w)) = trace w @ []" by simp
      then show ?thesis by force
    next
      assume "trace (snd (save_results_to_cache s key d w)) = trace w @ [CacheStore key d]"
      with d have "trace (snd (handle_response s key r w)) = trace w @ [CacheStore key d]" by simp
      then show ?thesis by force
    qed
  qed
qed

lemma call_trace:
  "\<exists>evs. trace (snd (snd (call s E (Some P) w))) = trace w @ evs
         \<and> set (concat (map event_keys evs)) \<subseteq> {cache_key E P}"
proof -
  let ?K = "cache_key E P"
  obtain r w1 where g: "get_results_from_cache s ?K w = (r, w1)"
    by (cases "get_results_from_cache s ?K w") auto
  from lookup_frame(6) [OF g] obtain e1 where
    t1: "trace w1 = trace w @ e1" and k1: "set (concat (map event_keys e1)) \<subseteq> {?K}"
    by (elim disjE) force+
  show ?thesis
  proof (cases "r = Inr JNull")
    case False
    with g have "snd (snd (call s E (Some P) w)) = w1"
      by (cases r) (auto simp: call_def cache_key_def Let_def)
    with t1 k1 show ?thesis by auto
  next
    case True
    obtain P2 w2 where u: "update_params s P w1 = (P2, w2)"
      by (cases "update_params s P w1") auto
    then have t2: "trace w2 = trace w1"
      by (auto simp: update_params_def Let_def)
    let ?ev = "HttpGet (api_url_format E) P2 (headers s)"
    let ?w3 = "w2\<lparr>trace := trace w2 @ [?ev]\<rparr>"
    have rq: "requests_get (api_url_format E) P2 (headers s) w2
                = (remote w2 (api_url_format E) P2 (headers s), ?w3)"
      by (simp add: requests_get_def)
    have t3: "trace ?w3 = trace w @ (e1 @ [?ev])"
      using t1 t2 by simp
    have k3: "set (concat (map event_keys (e1 @ [?ev]))) \<subseteq> {?K}"
      using k1 by simp
    show ?thesis
    proof (cases "remote w2 (api_url_format E) P2 (headers s)")
      case (Inl e)
      with g True u rq have "snd (snd (call s E (Some P) w)) = ?w3"
        by (simp add: call_def cache_key_def Let_def)
      with t3 k3 show ?thesis by metis
    next
      case (Inr response)
      with g True u rq have
        "snd (snd (call s E (Some P) w)) = snd (handle_response s ?K response ?w3)"
        by (simp add: call_def cache_key_def Let_def split: prod.splits)
      moreover from handle_trace [of s ?K response ?w3] obtain e4 where
        "trace (snd (handle_response s ?K response ?w3)) = trace ?w3 @ e4"
        and k4: "set (concat (map event_keys e4)) \<subseteq> {?K}"
        by blast
      ultimately have "trace (snd (snd (call s E (Some P) w))) = trace w @ ((e1 @ [?ev]) @ e4)"
        using t3 by simp
      moreover have "set (concat (map event_keys ((e1 @ [?ev]) @ e4))) \<subseteq> {?K}"
        using k3 k4 by simp
      ultimately show ?thesis by blast
    qed
  qed
qed

text \<open>
  C2. Every key that \<open>_call\<close> hands to the cache, at the lookup and at the write, is
  the key built from the endpoint and the params as the caller supplied them, before
  \<open>_update_params\<close> adds \<open>hash\<close>, \<open>apikey\<close> and \<open>ts\<close>. So the keys of two calls
  with the same endpoint and the same params are the same, whatever the two worlds (clock
  reading, cache contents, server) are.
\<close>

theorem cache_key_independent_of_time:
  assumes "k1 \<in> set (keys_used s E P w1)" and "k2 \<in> set (keys_used s E P w2)"
  shows "k1 = cache_key E P \<and> k2 = k1"
proof -
  have "k = cache_key E P" if "k \<in> set (keys_used s E P w)" for k and w :: "'a world"
  proof -
    from call_trace [of s E P w] obtain evs where
      "trace (snd (snd (call s E (Some P) w))) = trace w @ evs"
      and "set (concat (map event_keys evs)) \<subseteq> {cache_key E P}"
      by blast
    with that show ?thesis
      by (auto simp: keys_used_def new_events_def)
  qed
  from this [OF assms(1)] this [OF assms(2)] show ?thesis by simp
qed

theorem cache_key_independent_of_time_witness:
  "keys_used (demo_session (Some memory_cache)) [SegStr ''comics''] [(''limit'', PInt 5)]
      (demo_world 200 (JObj [(''results'', JArr [])]) [])
     = [''http://gateway.marvel.com:80/v1/public/comics?limit=5'',
        ''http://gateway.marvel.com:80/v1/public/comics?limit=5'']
   \<and> keys_used (demo_session (Some memory_cache)) [SegStr ''comics''] [(''limit'', PInt 5)]
      ((demo_world 200 (JObj [(''results'', JArr [])]) [])\<lparr>ticks := 1\<rparr>)
     = [''http://gateway.marvel.com:80/v1/public/comics?limit=5'',
        ''http://gateway.marvel.com:80/v1/public/comics?limit=5'']
   \<and> cache_key [SegStr ''comics''] [(''limit'', PInt 5)]
     = ''http://gateway.marvel.com:80/v1/public/comics?limit=5''
   \<and> map_of (fst (snd (call (demo_session (Some memory_cache)) [SegStr ''comics'']
        (Some [(''limit'', PInt 5)]) (demo_world 200 (JObj [(''results'', JArr [])]) [])))) ''ts''
     = Some (PStr ''2024-05-0112:00:00'')
   \<and> map_of (fst (snd (call (demo_session (Some memory_cache)) [SegStr ''comics'']
        (Some [(''limit'', PInt 5)])
        ((demo_world 200 (JObj [(''results'', JArr [])]) [])\<lparr>ticks := 1\<rparr>)))) ''ts''
     = Some (PStr ''2024-05-0112:00:01'')"
proof -
  let ?s = "demo_session (Some memory_cache)"
  let ?E = "[SegStr ''comics'']"
  let ?P = "[(''limit'', PInt 5)]"
  let ?wa = "demo_world 200 (JObj [(''results'', JArr [])]) [] :: (string \<times> json) list world"
  let ?wb = "?wa\<lparr>ticks := 1\<rparr>"
  let ?K = "''http://gateway.marvel.com:80/v1/public/comics?limit=5''"
  have u: "api_url_format ?E = ''http://gateway.marvel.com:80/v1/public/comics''"
    by (simp add: eval_key)
  have q: "create_cached_params ?P = ''?limit=5''"
    by (simp add: eval_key)
  have a: "keys_used ?s ?E ?P ?wa = [?K, ?K]"
    by (simp add: keys_used_def eval_call u q Let_def)
  have b: "keys_used ?s ?E ?P ?wb = [?K, ?K]"
    by (simp add: keys_used_def eval_call u q Let_def)
  have ta: "map_of (fst (snd (call ?s ?E (Some ?P) ?wa))) ''ts'' = Some (PStr ''2024-05-0112:00:00'')"
    by (simp add: eval_call u q Let_def)
  have tb: "map_of (fst (snd (call ?s ?E (Some ?P) ?wb))) ''ts'' = Some (PStr ''2024-05-0112:00:01'')"
    by (simp add: eval_call u q Let_def)
  have ka: "?K \<in> set (keys_used ?s ?E ?P ?wa)" using a by simp
  have kb: "?K \<in> set (keys_used ?s ?E ?P ?wb)" using b by simp
  from cache_key_independent_of_time [OF ka kb] have "cache_key ?E ?P = ?K" by simp
  with a b ta tb show ?thesis by blast
qed

end
